theory Spec2Isabelle
  imports Complex_Main "HOL-Library.Sublist" "HOL-Library.Char_ord" "HOL-Library.List_Lexorder"
begin

section \<open>Python string operations used by the workflow\<close>

text \<open>
  Report texts are Python \<open>str\<close> values. They are modelled as \<open>string\<close>, one \<open>char\<close>
  per code point, which covers the code points 0 to 255. On that range \<open>str.lower()\<close> maps
  \<open>A\<close>..\<open>Z\<close> and the Latin-1 capitals (192..222 except the multiplication sign 215) to the
  code point 32 above and leaves every other character alone.
\<close>

definition lower_char :: "char \<Rightarrow> char" where
  "lower_char c =
     (let n = (of_char c :: nat)
      in if (65 \<le> n \<and> n \<le> 90) \<or> (192 \<le> n \<and> n \<le> 222 \<and> n \<noteq> 215)
         then char_of (n + 32) else c)"

definition lower :: "string \<Rightarrow> string" where
  "lower s = map lower_char s"

text \<open>\<open>sub in s\<close>: some position of \<open>s\<close> starts with \<open>sub\<close>.\<close>

fun contains :: "string \<Rightarrow> string \<Rightarrow> bool" where
  "contains sub [] = (sub = [])"
| "contains sub (c # cs) = (prefix sub (c # cs) \<or> contains sub cs)"

text \<open>
  \<open>s.replace(old, new)\<close> and \<open>s.count(sub)\<close> scan from the left and, after a match,
  go on behind it (occurrences do not overlap). The empty pattern matches between any two
  characters and at both ends.
\<close>

fun replace_from :: "string \<Rightarrow> string \<Rightarrow> string \<Rightarrow> string" where
  "replace_from old new [] = []"
| "replace_from old new (c # cs) =
     (if prefix old (c # cs) then new @ replace_from old new (drop (length old - 1) cs)
      else c # replace_from old new cs)"

definition replace :: "string \<Rightarrow> string \<Rightarrow> string \<Rightarrow> string" where
  "replace old new s =
     (if old = [] then new @ concat (map (\<lambda>c. c # new) s) else replace_from old new s)"

fun count_from :: "string \<Rightarrow> string \<Rightarrow> nat" where
  "count_from sub [] = 0"
| "count_from sub (c # cs) =
     (if prefix sub (c # cs) then Suc (count_from sub (drop (length sub - 1) cs))
      else count_from sub cs)"

definition count :: "string \<Rightarrow> string \<Rightarrow> nat" where
  "count sub s = (if sub = [] then length s + 1 else count_from sub s)"


section \<open>Double-precision arithmetic of the confidence computation\<close>

text \<open>
  \<open>int((verified_count / total_claims) * 100)\<close> is computed in IEEE 754 binary64: the true
  division of two Python integers is the exact quotient rounded to the nearest double
  (ties to even), the product with \<open>100\<close> is rounded the same way, and \<open>int\<close> truncates.
  A double is represented by the rational number it denotes. \<open>round_double\<close> rounds a
  non-negative rational to a 53-bit significand, with the fixed spacing \<open>2^-1074\<close> in the
  subnormal range; the values that occur here are at most 100, so there is no overflow.
\<close>

function bit_length :: "int \<Rightarrow> int" where
  "bit_length n = (if n \<le> 0 then 0 else 1 + bit_length (n div 2))"
  by pat_completeness auto
termination by (relation "measure nat") auto

declare bit_length.simps [simp del]

definition pow2 :: "int \<Rightarrow> rat" where
  "pow2 e = (if 0 \<le> e then 2 ^ nat e else 1 / 2 ^ nat (- e))"

definition ilog2 :: "rat \<Rightarrow> int" where
  "ilog2 q =
     (let (a, b) = quotient_of q;
          d = bit_length a - bit_length b
      in if pow2 d \<le> q then d else d - 1)"

definition round_half_even :: "rat \<Rightarrow> int" where
  "round_half_even s =
     (let f = \<lfloor>s\<rfloor>; r = s - of_int f
      in if r < 1 / 2 then f else if 1 / 2 < r then f + 1 else if even f then f else f + 1)"

definition round_double :: "rat \<Rightarrow> rat" where
  "round_double q =
     (if q = 0 then 0
      else let e = max (ilog2 q - 52) (- 1074)
           in of_int (round_half_even (q / pow2 e)) * pow2 e)"

definition true_div :: "nat \<Rightarrow> nat \<Rightarrow> rat" where
  "true_div a b = round_double (of_nat a / of_nat b)"

definition float_mul :: "rat \<Rightarrow> rat \<Rightarrow> rat" where
  "float_mul x y = round_double (x * y)"

definition trunc_int :: "rat \<Rightarrow> int" where
  "trunc_int x = \<lfloor>x\<rfloor>"


section \<open>Parsing a verification report (\<open>step_4_verify_post\<close>, after the call)\<close>

record verification =
  passed :: bool
  confidence :: int
  report :: string

text \<open>The local variables of \<open>step_4_verify_post\<close>, each as a function of the report.\<close>

definition report_lower :: "string \<Rightarrow> string" where
  "report_lower verification_report = lower verification_report"

definition passed_signal :: "string \<Rightarrow> bool" where
  "passed_signal verification_report =
     (contains ''overall status: passed'' (report_lower verification_report) \<or>
      contains ''recommendation: publish'' (report_lower verification_report) \<or>
      contains (''recommendation:'' @ [CHR 0x0A] @ ''publish'') (report_lower verification_report))"

definition report_clean :: "string \<Rightarrow> string" where
  "report_clean verification_report =
     replace ''*'' '''' (replace ''**'' '''' (report_lower verification_report))"

definition verified_count :: "string \<Rightarrow> nat" where
  "verified_count verification_report = count ''status: verified'' (report_clean verification_report)"

definition unverified_count :: "string \<Rightarrow> nat" where
  "unverified_count verification_report =
     count ''status: unverified'' (report_clean verification_report)"

definition claim_confidence :: "nat \<Rightarrow> nat \<Rightarrow> int" where
  "claim_confidence v u =
     (let total_claims = v + u
      in if total_claims > 0 then trunc_int (float_mul (true_div v total_claims) 100) else 0)"

definition parse_report :: "string \<Rightarrow> verification" where
  "parse_report verification_report =
     (let v = verified_count verification_report;
          u = unverified_count verification_report
      in if u = 0 \<and> v > 0
         then \<lparr>passed = True, confidence = 100, report = verification_report\<rparr>
         else \<lparr>passed = passed_signal verification_report,
               confidence = claim_confidence v u,
               report = verification_report\<rparr>)"


section \<open>The world outside the program\<close>

text \<open>
  Network requests, the language model, the clock, the environment variables and the file
  system are outside the program. \<open>env\<close> fixes how they answer; an answer may depend on
  everything that happened before (the trace). \<open>world\<close> is the state the run threads:
  the trace of calls made so far (oldest first), the number of clock readings and the files
  written (newest first, so a later write to a path shadows an earlier one).

  The wording of the prompts (\<open>prompts.py\<close> and the literal text in
  \<open>step_4b_rewrite_verified_only\<close>) is not modelled: a generative call is recorded with its
  stage and the strings substituted into the prompt, and the model's answer may depend on
  both. \<open>None\<close> as an answer stands for an exception raised inside \<open>call_agent\<close>, which
  no caller catches.
\<close>

type_synonym timestamp = int

datatype stage = Curate | Write | Verify | Rewrite

datatype event =
    FeedParse string
  | GNewsGet string
  | FetchArticles string
  | Generate stage "string list"
  | Publish string
  | ValidateCredential
  | ProfileGet string
  | UgcPost string string
  | FileWrite string

record rss_entry =
  entry_title :: "string option"
  entry_summary :: "string option"
  entry_description :: "string option"
  entry_link :: "string option"
  published_parsed :: "timestamp option"
  updated_parsed :: "timestamp option"

record gnews_item =
  item_url :: "string option"
  item_title :: "string option"
  item_description :: "string option"
  item_publishedAt :: "string option"
  item_source_name :: "string option"

record article =
  source :: string
  title :: string
  date :: string
  url :: string
  summary :: string

datatype http_response = Response nat string "string option"

record env =
  clock :: "nat \<Rightarrow> timestamp"
  isoformat :: "timestamp \<Rightarrow> string"
  strftime :: "timestamp \<Rightarrow> string"
  feedparser_parse :: "event list \<Rightarrow> string \<Rightarrow> rss_entry list option"
  GNEWS_API_KEY :: "string option"
  gnews_get :: "event list \<Rightarrow> gnews_item list option"
  fetch_full :: "event list \<Rightarrow> string \<Rightarrow> article list \<Rightarrow> string"
  agent :: "event list \<Rightarrow> stage \<Rightarrow> string list \<Rightarrow> string option"
  LINKEDIN_ACCESS_TOKEN :: "string option"
  userinfo_get :: "event list \<Rightarrow> string \<Rightarrow> (string \<times> string) list option"
  ugc_post :: "event list \<Rightarrow> string \<Rightarrow> string \<Rightarrow> string + http_response"

record world =
  trace :: "event list"
  ticks :: nat
  files :: "(string \<times> string) list"

definition emit :: "event \<Rightarrow> world \<Rightarrow> world" where
  "emit e w = w\<lparr>trace := trace w @ [e]\<rparr>"

text \<open>\<open>datetime.now()\<close>\<close>

definition now :: "env \<Rightarrow> world \<Rightarrow> world \<times> timestamp" where
  "now E w = (w\<lparr>ticks := Suc (ticks w)\<rparr>, clock E (ticks w))"

text \<open>\<open>str(n)\<close> of a non-negative integer.\<close>

fun str_nat :: "nat \<Rightarrow> string" where
  "str_nat n =
     (if n < 10 then [char_of (48 + n)] else str_nat (n div 10) @ [char_of (48 + n mod 10)])"

declare str_nat.simps [simp del]

text \<open>\<open>x or default\<close> and \<open>not x\<close> on an optional string: absent and empty are both falsy.\<close>

definition falsy :: "string option \<Rightarrow> bool" where
  "falsy x = (x = None \<or> x = Some [])"

definition get_or :: "'a option \<Rightarrow> 'a \<Rightarrow> 'a" where
  "get_or x d = (case x of Some v \<Rightarrow> v | None \<Rightarrow> d)"


section \<open>\<open>rss_fetcher.py\<close>\<close>

definition RSS_FEEDS :: "(string \<times> string) list" where
  "RSS_FEEDS =
     [(''OpenAI'', ''https://openai.com/blog/rss.xml''),
      (''Anthropic'', ''https://www.anthropic.com/news/rss''),
      (''Google AI'', ''https://blog.google/technology/ai/rss/''),
      (''DeepMind'', ''https://deepmind.google/blog/rss.xml''),
      (''Hugging Face'', ''https://huggingface.co/blog/feed.xml''),
      (''Meta AI'', ''https://ai.meta.com/blog/rss/''),
      (''Mistral AI'', ''https://mistral.ai/feed.xml'')]"

definition parse_date :: "env \<Rightarrow> rss_entry \<Rightarrow> world \<Rightarrow> world \<times> timestamp" where
  "parse_date E entry w =
     (case published_parsed entry of
        Some t \<Rightarrow> (w, t)
      | None \<Rightarrow> (case updated_parsed entry of Some t \<Rightarrow> (w, t) | None \<Rightarrow> now E w))"

text \<open>The inner loop of \<open>fetch_rss_feeds\<close> over the entries of one feed.\<close>

fun rss_entries ::
  "env \<Rightarrow> string \<Rightarrow> timestamp \<Rightarrow> rss_entry list \<Rightarrow> article list \<Rightarrow> world \<Rightarrow> world \<times> article list"
where
  "rss_entries E source_name cutoff_time [] articles w = (w, articles)"
| "rss_entries E source_name cutoff_time (entry # entries) articles w =
     (let (w1, pub_date) = parse_date E entry w
      in if pub_date \<ge> cutoff_time
         then rss_entries E source_name cutoff_time entries
                (articles @
                 [\<lparr>source = source_name,
                   title = get_or (entry_title entry) ''No title'',
                   date = isoformat E pub_date,
                   url = get_or (entry_link entry) [],
                   summary = get_or (entry_summary entry)
                               (get_or (entry_description entry) ''No summary available'')\<rparr>])
                w1
         else rss_entries E source_name cutoff_time entries articles w1)"

text \<open>The outer loop over the feeds; a feed whose retrieval raises contributes nothing.\<close>

fun rss_feeds ::
  "env \<Rightarrow> timestamp \<Rightarrow> (string \<times> string) list \<Rightarrow> article list \<Rightarrow> world \<Rightarrow> world \<times> article list"
where
  "rss_feeds E cutoff_time [] articles w = (w, articles)"
| "rss_feeds E cutoff_time ((source_name, feed_url) # feeds) articles w =
     (let w1 = emit (FeedParse feed_url) w
      in case feedparser_parse E (trace w) feed_url of
           None \<Rightarrow> rss_feeds E cutoff_time feeds articles w1
         | Some entries \<Rightarrow>
             (let (w2, articles2) = rss_entries E source_name cutoff_time entries articles w1
              in rss_feeds E cutoff_time feeds articles2 w2))"

text \<open>
  \<open>articles.sort(key=lambda x: x["date"], reverse=True)\<close>: a stable sort in descending
  order of the date strings, compared as Python compares strings (by code point).
\<close>

definition sort_newest_first :: "article list \<Rightarrow> article list" where
  "sort_newest_first articles = rev (sort_key date (rev articles))"

definition fetch_rss_feeds :: "env \<Rightarrow> int \<Rightarrow> world \<Rightarrow> world \<times> article list" where
  "fetch_rss_feeds E hours_back w =
     (let (w1, t) = now E w;
          cutoff_time = t - hours_back * 3600000000;
          (w2, articles) = rss_feeds E cutoff_time RSS_FEEDS [] w1
      in (w2, sort_newest_first articles))"


section \<open>\<open>gnews_fetcher.py\<close>\<close>

definition GNEWS_API_URL :: string where
  "GNEWS_API_URL = ''https://gnews.io/api/v4/search''"

text \<open>The loop of \<open>fetch_gnews\<close> over the returned items, with the set of URLs seen.\<close>

fun gnews_items ::
  "env \<Rightarrow> gnews_item list \<Rightarrow> string set \<Rightarrow> article list \<Rightarrow> world \<Rightarrow> world \<times> article list"
where
  "gnews_items E [] seen_urls articles w = (w, articles)"
| "gnews_items E (item # items) seen_urls articles w =
     (let u = get_or (item_url item) []
      in if u \<in> seen_urls then gnews_items E items seen_urls articles w
         else (let (w1, t) = now E w
               in gnews_items E items (insert u seen_urls)
                    (articles @
                     [\<lparr>source = get_or (item_source_name item) ''Unknown'',
                       title = get_or (item_title item) ''No title'',
                       date = get_or (item_publishedAt item) (isoformat E t),
                       url = u,
                       summary = get_or (item_description item) ''No summary available''\<rparr>])
                    w1))"

definition fetch_gnews :: "env \<Rightarrow> world \<Rightarrow> world \<times> article list" where
  "fetch_gnews E w =
     (if falsy (GNEWS_API_KEY E) then (w, [])
      else (let w1 = emit (GNewsGet GNEWS_API_URL) w
            in case gnews_get E (trace w) of
                 None \<Rightarrow> (w1, [])
               | Some items \<Rightarrow> gnews_items E items {} [] w1))"


section \<open>\<open>linkedin_poster.py\<close>\<close>

record post_result =
  success :: bool
  dry_run :: "bool option"
  post_id :: "string option"
  message :: "string option"
  error :: "string option"

record validation =
  valid :: bool
  user_name :: "string option"
  user_email :: "string option"
  validation_error :: "string option"

definition failure :: "string \<Rightarrow> post_result" where
  "failure e = \<lparr>success = False, dry_run = None, post_id = None, message = None, error = Some e\<rparr>"

definition get_user_profile ::
  "env \<Rightarrow> string \<Rightarrow> world \<Rightarrow> world \<times> (string \<times> string) list option" where
  "get_user_profile E access_token w =
     (emit (ProfileGet access_token) w, userinfo_get E (trace w) access_token)"

definition post_to_linkedin :: "env \<Rightarrow> string \<Rightarrow> world \<Rightarrow> world \<times> post_result" where
  "post_to_linkedin E content w0 =
     (let w = emit (Publish content) w0
      in if falsy (LINKEDIN_ACCESS_TOKEN E) then (w, failure ''LINKEDIN_ACCESS_TOKEN not set'')
         else (let access_token = the (LINKEDIN_ACCESS_TOKEN E);
                   (w1, profile) = get_user_profile E access_token w
               in if profile = None \<or> profile = Some []
                  then (w1, failure ''Failed to fetch user profile'')
                  else if falsy (map_of (the profile) ''sub'')
                  then (w1, failure ''Could not get user ID from profile'')
                  else (let w2 = emit (UgcPost access_token content) w1
                        in case ugc_post E (trace w1) access_token content of
                             Inl e \<Rightarrow> (w2, failure e)
                           | Inr (Response status_code body restli_id) \<Rightarrow>
                               if status_code = 201
                               then (w2, \<lparr>success = True, dry_run = None,
                                          post_id = Some (get_or restli_id ''unknown''),
                                          message = Some ''Post published successfully'',
                                          error = None\<rparr>)
                               else (w2, failure (''HTTP '' @ str_nat status_code @ '': '' @ body)))))"

definition validate_linkedin_token :: "env \<Rightarrow> world \<Rightarrow> world \<times> validation" where
  "validate_linkedin_token E w0 =
     (let w = emit ValidateCredential w0
      in if falsy (LINKEDIN_ACCESS_TOKEN E)
         then (w, \<lparr>valid = False, user_name = None, user_email = None,
                   validation_error = Some ''No access token provided''\<rparr>)
         else (let (w1, profile) = get_user_profile E (the (LINKEDIN_ACCESS_TOKEN E)) w
               in if profile = None \<or> profile = Some []
                  then (w1, \<lparr>valid = False, user_name = None, user_email = None,
                             validation_error = Some ''Token is invalid or expired''\<rparr>)
                  else (w1, \<lparr>valid = True,
                             user_name = Some (get_or (map_of (the profile) ''name'') ''Unknown''),
                             user_email = Some (get_or (map_of (the profile) ''email'') ''Unknown''),
                             validation_error = None\<rparr>)))"


section \<open>\<open>main.py\<close>: the steps\<close>

definition call_agent :: "env \<Rightarrow> stage \<Rightarrow> string list \<Rightarrow> world \<Rightarrow> world \<times> string option" where
  "call_agent E st inputs w = (emit (Generate st inputs) w, agent E (trace w) st inputs)"

text \<open>Lines 58 to 70 (and again 321 to 323): both fetches, RSS first.\<close>

definition fetch_all_articles :: "env \<Rightarrow> int \<Rightarrow> world \<Rightarrow> world \<times> article list" where
  "fetch_all_articles E hours_back w =
     (let (w1, rss_articles) = fetch_rss_feeds E hours_back w;
          (w2, gnews_articles) = fetch_gnews E w1
      in (w2, rss_articles @ gnews_articles))"

text \<open>The text block of one article, numbered from 1.\<close>

definition format_article :: "nat \<Rightarrow> article \<Rightarrow> string" where
  "format_article i a =
     ''--- Article '' @ str_nat i @ '' ---'' @ [CHR 0x0A] @
     ''Source: '' @ source a @ [CHR 0x0A] @
     ''Title: '' @ title a @ [CHR 0x0A] @
     ''Date: '' @ date a @ [CHR 0x0A] @
     ''URL: '' @ url a @ [CHR 0x0A] @
     ''Summary: '' @ take 1000 (summary a) @ [CHR 0x0A, CHR 0x0A]"

definition step_1_fetch_news :: "env \<Rightarrow> int \<Rightarrow> world \<Rightarrow> world \<times> string option" where
  "step_1_fetch_news E hours_back w =
     (let (w1, all_articles) = fetch_all_articles E hours_back w
      in if all_articles = [] then (w1, None)
         else (w1, Some (''Found '' @ str_nat (length all_articles) @ '' articles:'' @
                         [CHR 0x0A, CHR 0x0A] @
                         concat (map (\<lambda>(i, a). format_article (Suc i) a)
                                   (enumerate 0 all_articles)))))"

definition step_2_curate_news :: "env \<Rightarrow> string \<Rightarrow> world \<Rightarrow> world \<times> string option" where
  "step_2_curate_news E articles_text w = call_agent E Curate [articles_text] w"

text \<open>
  \<open>step_2b_fetch_full_articles\<close> picks at most five URLs out of a Python set, whose
  iteration order is not fixed, and downloads them; every failure is caught. Its result is
  taken from the environment.
\<close>

definition step_2b_fetch_full_articles ::
  "env \<Rightarrow> string \<Rightarrow> article list \<Rightarrow> world \<Rightarrow> world \<times> string" where
  "step_2b_fetch_full_articles E curated_text all_articles w =
     (emit (FetchArticles curated_text) w, fetch_full E (trace w) curated_text all_articles)"

definition step_3_write_post :: "env \<Rightarrow> string \<Rightarrow> string \<Rightarrow> world \<Rightarrow> world \<times> string option" where
  "step_3_write_post E curated_articles source_articles w =
     call_agent E Write [curated_articles] w"

definition step_4_verify_post ::
  "env \<Rightarrow> string \<Rightarrow> string \<Rightarrow> world \<Rightarrow> world \<times> verification option" where
  "step_4_verify_post E draft source_articles w =
     (case call_agent E Verify [draft, source_articles] w of
        (w1, None) \<Rightarrow> (w1, None)
      | (w1, Some verification_report) \<Rightarrow> (w1, Some (parse_report verification_report)))"

definition step_4b_rewrite_verified_only ::
  "env \<Rightarrow> string \<Rightarrow> string \<Rightarrow> string \<Rightarrow> world \<Rightarrow> world \<times> string option" where
  "step_4b_rewrite_verified_only E draft verification_report source_articles w =
     call_agent E Rewrite [draft, verification_report, source_articles] w"

definition step_5_post_to_linkedin :: "env \<Rightarrow> string \<Rightarrow> bool \<Rightarrow> world \<Rightarrow> world \<times> post_result" where
  "step_5_post_to_linkedin E content is_dry_run w =
     (if is_dry_run
      then (w, \<lparr>success = True, dry_run = Some True, post_id = None, message = None, error = None\<rparr>)
      else post_to_linkedin E content w)"


section \<open>\<open>main.py\<close>: \<open>run_workflow\<close>\<close>

text \<open>The keys and values of \<open>results["steps"]\<close>, in the order they are set.\<close>

datatype step_key =
  K_fetch | K_curate | K_fetch_full | K_write | K_verify | K_rewrite nat | K_verify_n nat | K_post

datatype step_value =
    articles_found nat
  | completed
  | completed_draft string
  | verified verification
  | verify_skipped
  | posted post_result

record results =
  started_at :: string
  results_dry_run :: bool
  steps :: "(step_key \<times> step_value) list"
  status :: "string option"
  reason :: "string option"
  draft_file :: "string option"
  final_confidence :: "int option"

definition set_step :: "step_key \<Rightarrow> step_value \<Rightarrow> results \<Rightarrow> results" where
  "set_step k v r = r\<lparr>steps := steps r @ [(k, v)]\<rparr>"

definition max_retries :: nat where
  "max_retries = 3"

text \<open>The variables the retry loop (lines 349 to 369) reads and writes.\<close>

record loop_vars =
  draft_post :: string
  current_verification :: verification
  retry_count :: nat
  loop_results :: results

function retry_loop :: "env \<Rightarrow> string \<Rightarrow> loop_vars \<Rightarrow> world \<Rightarrow> world \<times> loop_vars option" where
  "retry_loop E enhanced_content lv w =
     (if (\<not> passed (current_verification lv) \<or> confidence (current_verification lv) < 100)
         \<and> retry_count lv < max_retries
      then (case step_4b_rewrite_verified_only E (draft_post lv)
                   (report (current_verification lv)) enhanced_content w of
              (w1, None) \<Rightarrow> (w1, None)
            | (w1, Some revised_post) \<Rightarrow>
                (case step_4_verify_post E revised_post enhanced_content w1 of
                   (w2, None) \<Rightarrow> (w2, None)
                 | (w2, Some v) \<Rightarrow>
                     (let lv2 = \<lparr>draft_post = revised_post,
                                 current_verification = v,
                                 retry_count = Suc (retry_count lv),
                                 loop_results =
                                   set_step (K_verify_n (Suc (retry_count lv))) (verified v)
                                     (set_step (K_rewrite (Suc (retry_count lv))) completed
                                        (loop_results lv))\<rparr>
                      in if confidence v = 100 then (w2, Some lv2)
                         else retry_loop E enhanced_content lv2 w2)))
      else (w, Some lv))"
  by pat_completeness auto
termination
  by (relation "measure (\<lambda>(E, enhanced_content, lv, w). max_retries - retry_count lv)") auto

declare retry_loop.simps [simp del]

text \<open>Lines 341 to 369: the first verification, then the retry loop.\<close>

definition converge :: "env \<Rightarrow> string \<Rightarrow> string \<Rightarrow> results \<Rightarrow> world \<Rightarrow> world \<times> loop_vars option" where
  "converge E draft enhanced_content res w =
     (case step_4_verify_post E draft enhanced_content w of
        (w1, None) \<Rightarrow> (w1, None)
      | (w1, Some v) \<Rightarrow>
          retry_loop E enhanced_content
            \<lparr>draft_post = draft, current_verification = v, retry_count = 0,
             loop_results = set_step K_verify (verified v) res\<rparr> w1)"

text \<open>Lines 377 to 389: the draft and the report go to a file named after the time.\<close>

definition draft_text :: "string \<Rightarrow> string \<Rightarrow> string" where
  "draft_text draft verification_report =
     ''=== DRAFT POST (BEST EFFORT) ==='' @ [CHR 0x0A, CHR 0x0A] @ draft @
     [CHR 0x0A, CHR 0x0A] @ ''=== VERIFICATION REPORT ==='' @ [CHR 0x0A, CHR 0x0A] @
     verification_report"

definition save_draft :: "env \<Rightarrow> loop_vars \<Rightarrow> world \<Rightarrow> world \<times> results" where
  "save_draft E lv w =
     (let (w1, t) = now E w;
          path = ''drafts/draft_'' @ strftime E t @ ''.txt'';
          w2 = (emit (FileWrite path) w1)
                 \<lparr>files := (path, draft_text (draft_post lv) (report (current_verification lv)))
                            # files w1\<rparr>
      in (w2, (loop_results lv)\<lparr>status := Some ''draft_saved'',
                                draft_file := Some path,
                                final_confidence := Some (confidence (current_verification lv))\<rparr>))"

text \<open>Lines 393 to 402: step 5 and the final status.\<close>

definition publish_step :: "env \<Rightarrow> bool \<Rightarrow> string \<Rightarrow> results \<Rightarrow> world \<Rightarrow> world \<times> results" where
  "publish_step E is_dry_run draft res w =
     (let (w1, post_result) = step_5_post_to_linkedin E draft is_dry_run w
      in (w1, (set_step K_post (posted post_result) res)
                \<lparr>status := Some (if success post_result then ''success'' else ''failed'')\<rparr>))"

text \<open>
  Lines 312 to 337: steps 1 to 3. The result is \<open>None\<close> when a generative call raised,
  \<open>Inl\<close> of the results returned early when no article was found, and otherwise the draft,
  the enhanced content and the results so far.
\<close>

definition prepare ::
  "env \<Rightarrow> bool \<Rightarrow> int \<Rightarrow> world \<Rightarrow> world \<times> (results + string \<times> string \<times> results) option" where
  "prepare E is_dry_run hours_back w =
     (let (wa, t0) = now E w;
          (wb, t1) = now E wa;
          res = \<lparr>started_at = isoformat E t1, results_dry_run = is_dry_run, steps = [],
                 status = None, reason = None, draft_file = None, final_confidence = None\<rparr>
      in case step_1_fetch_news E hours_back wb of
           (w1, None) \<Rightarrow>
             (w1, Some (Inl (res\<lparr>status := Some ''skipped'',
                                 reason := Some ''No articles found''\<rparr>)))
         | (w1, Some articles_text) \<Rightarrow>
             if articles_text = []
             then (w1, Some (Inl (res\<lparr>status := Some ''skipped'',
                                      reason := Some ''No articles found''\<rparr>)))
             else
             (let (w2, all_articles) = fetch_all_articles E hours_back w1;
                  res1 = set_step K_fetch (articles_found (length all_articles)) res
              in case step_2_curate_news E articles_text w2 of
                   (w3, None) \<Rightarrow> (w3, None)
                 | (w3, Some curated) \<Rightarrow>
                     (let res2 = set_step K_curate completed res1;
                          (w4, enhanced_content) =
                             step_2b_fetch_full_articles E curated all_articles w3;
                          res3 = set_step K_fetch_full completed res2
                      in case step_3_write_post E enhanced_content articles_text w4 of
                           (w5, None) \<Rightarrow> (w5, None)
                         | (w5, Some draft) \<Rightarrow>
                             (w5, Some (Inr (draft, enhanced_content,
                                             set_step K_write (completed_draft draft) res3))))))"

definition run_workflow ::
  "env \<Rightarrow> bool \<Rightarrow> int \<Rightarrow> bool \<Rightarrow> int \<Rightarrow> world \<Rightarrow> world \<times> results option" where
  "run_workflow E is_dry_run hours_back skip_verification confidence_threshold w =
     (case prepare E is_dry_run hours_back w of
        (w1, None) \<Rightarrow> (w1, None)
      | (w1, Some (Inl res)) \<Rightarrow> (w1, Some res)
      | (w1, Some (Inr (draft, enhanced_content, res))) \<Rightarrow>
          if \<not> skip_verification
          then (case converge E draft enhanced_content res w1 of
                  (w2, None) \<Rightarrow> (w2, None)
                | (w2, Some lv) \<Rightarrow>
                    if confidence (current_verification lv) < 100
                    then (let (w3, res3) = save_draft E lv w2 in (w3, Some res3))
                    else (let (w3, res3) = publish_step E is_dry_run (draft_post lv)
                                             (loop_results lv) w2
                          in (w3, Some res3)))
          else (let (w3, res3) = publish_step E is_dry_run draft
                                   (set_step K_verify verify_skipped res) w1
                in (w3, Some res3)))"


section \<open>Properties of the report parser\<close>

lemma contains_iff_sublist: "contains sub s \<longleftrightarrow> sublist sub s"
  by (induction s) (simp_all add: sublist_Cons_right)

text \<open>
  C2. A report with at least one \<open>status: verified\<close> marker and no \<open>status: unverified\<close>
  marker (counted on the lower-cased text without asterisks) is accepted at confidence 100,
  whatever else the report says.
\<close>

theorem all_verified_accepted:
  assumes "0 < verified_count r" and "unverified_count r = 0"
  shows "passed (parse_report r) \<and> confidence (parse_report r) = 100"
  using assms by (simp add: parse_report_def)

theorem all_verified_accepted_witness:
  "0 < verified_count (''Status: VERIFIED'' @ [CHR 0x0A] @ ''Overall Status: FAILED'') \<and>
   unverified_count (''Status: VERIFIED'' @ [CHR 0x0A] @ ''Overall Status: FAILED'') = 0 \<and>
   passed (parse_report (''Status: VERIFIED'' @ [CHR 0x0A] @ ''Overall Status: FAILED'')) \<and>
   confidence (parse_report (''Status: VERIFIED'' @ [CHR 0x0A] @ ''Overall Status: FAILED'')) = 100"
proof -
  let ?r = "''Status: VERIFIED'' @ [CHR 0x0A] @ ''Overall Status: FAILED''"
  have v: "0 < verified_count ?r"
    by code_simp
  have u: "unverified_count ?r = 0"
    by code_simp
  from all_verified_accepted [OF v u] v u show ?thesis
    by blast
qed

end
